theory Spec2Isabelle
  imports Complex_Main "HOL-Library.AList" "HOL-Library.Sublist"
begin

section \<open>Python values\<close>

text \<open>
  The values that \<open>json.loads\<close> produces and that the handlers pass around: \<open>None\<close>,
  booleans, integers, floats, strings, lists and dictionaries. A float is a finite
  number or one of the three non-finite values that Python's JSON decoder accepts.
  Strings are lists of characters with code points below 256. A dictionary is an
  association list in insertion order, looked up with \<open>map_of\<close>; assignment to a key
  is \<open>AList.update\<close>, which overwrites in place or appends, as a Python dict does.
\<close>

datatype pyfloat = Finite rat | PosInf | NegInf | NaN

datatype json =
    JNull
  | JBool bool
  | JInt int
  | JFloat pyfloat
  | JStr string
  | JList "json list"
  | JObj "(string \<times> json) list"

type_synonym pydict = "(string \<times> json) list"

text \<open>Python's truth value of an object, as \<open>not v\<close> and \<open>if v:\<close> test it.\<close>

fun truthy :: "json \<Rightarrow> bool" where
  "truthy JNull = False"
| "truthy (JBool b) = b"
| "truthy (JInt i) = (i \<noteq> 0)"
| "truthy (JFloat f) = (f \<noteq> Finite 0)"
| "truthy (JStr s) = (s \<noteq> [])"
| "truthy (JList xs) = (xs \<noteq> [])"
| "truthy (JObj kvs) = (kvs \<noteq> [])"

text \<open>\<open>d.get(k)\<close> is \<open>None\<close> for a missing key, \<open>d.get(k, dflt)\<close> is \<open>dflt\<close>.\<close>

definition dict_get :: "pydict \<Rightarrow> string \<Rightarrow> json" where
  "dict_get d k = (case map_of d k of None \<Rightarrow> JNull | Some v \<Rightarrow> v)"

definition dict_get_default :: "pydict \<Rightarrow> string \<Rightarrow> json \<Rightarrow> json" where
  "dict_get_default d k dflt = (case map_of d k of None \<Rightarrow> dflt | Some v \<Rightarrow> v)"

text \<open>
  The exceptions the modelled code raises or catches. A \<open>TypeError\<close> raised by the
  interpreter records the operation that failed and the offending value; its message
  text is the interpreter's and is obtained through \<open>str\<close>, a parameter of the model
  wherever the code formats an exception.
\<close>

datatype tyerr = NotContainer json | BadSubscript json | BadOperand json

datatype py_exn =
    JSONDecodeError
  | TypeError tyerr
  | AttributeError json string
  | KeyError string
  | IndexError
  | OverflowError
  | ValueError json
  | NotImplementedError string
  | HTTPException nat string
  | RecursionError string
  | OtherException string

section \<open>The disabled payment client (\<open>app/core/stripe_client.py\<close>)\<close>

text \<open>
  Modelled from the spec: the enumeration \<open>SubscriptionStatus\<close> of \<open>app.models\<close>,
  which is imported but not part of the sources at hand; the spec names its members
  ACTIVE, CANCELED and PAST_DUE.
\<close>

datatype SubscriptionStatus = ACTIVE | CANCELED | PAST_DUE

definition map_subscription_status :: "string \<Rightarrow> SubscriptionStatus" where
  "map_subscription_status stripe_status = CANCELED"

section \<open>The subscription endpoints (\<open>app/api/v1/endpoints/subscription.py\<close>)\<close>

text \<open>
  Modelled from the spec: the enumeration \<open>SubscriptionPlan\<close> of \<open>app.models\<close>, which
  has the member FREE and at least one paid tier; a paid tier is identified by its name.
\<close>

datatype SubscriptionPlan = FREE | PAID string

text \<open>
  The fields of \<open>Project\<close> and \<open>User\<close> that the handler reads. Sizes and token counts
  are Python integers.
\<close>

record Project =
  total_size_kb :: int

record User =
  subscription_plan :: SubscriptionPlan
  tokens_used :: int
  tokens_limit :: int
  projects :: "Project list"









text \<open>
  The four disabled endpoints. Each takes the request body (where the route has one)
  and the authenticated user that the framework resolved, and raises.
\<close>

definition HTTP_503_SERVICE_UNAVAILABLE :: nat where
  "HTTP_503_SERVICE_UNAVAILABLE = 503"

definition create_checkout_session :: "'req \<Rightarrow> User \<Rightarrow> py_exn + 'resp" where
  "create_checkout_session checkout_request current_user =
     Inl (HTTPException HTTP_503_SERVICE_UNAVAILABLE ''Payment processing is currently unavailable'')"

definition create_portal_session :: "'req \<Rightarrow> User \<Rightarrow> py_exn + 'resp" where
  "create_portal_session portal_request current_user =
     Inl (HTTPException HTTP_503_SERVICE_UNAVAILABLE ''Customer portal is currently unavailable'')"

definition cancel_subscription :: "User \<Rightarrow> py_exn + 'resp" where
  "cancel_subscription current_user =
     Inl (HTTPException HTTP_503_SERVICE_UNAVAILABLE ''Subscription management is currently unavailable'')"

definition reactivate_subscription :: "User \<Rightarrow> py_exn + 'resp" where
  "reactivate_subscription current_user =
     Inl (HTTPException HTTP_503_SERVICE_UNAVAILABLE ''Subscription management is currently unavailable'')"

section \<open>Configuration (\<open>app/core/config.py\<close>)\<close>

text \<open>
  \<open>str.isspace\<close> on one character, for the code points below 256, and \<open>str.strip()\<close>,
  which removes such characters from both ends.
\<close>

definition isspace :: "char \<Rightarrow> bool" where
  "isspace c =
     (let n = (of_char c :: nat)
      in (9 \<le> n \<and> n \<le> 13) \<or> (28 \<le> n \<and> n \<le> 32) \<or> n = 133 \<or> n = 160)"

definition strip :: "string \<Rightarrow> string" where
  "strip s = rev (dropWhile isspace (rev (dropWhile isspace s)))"

text \<open>\<open>s.split(sep)\<close> for a separator of one character: the fields between separators.\<close>

fun split :: "char \<Rightarrow> string \<Rightarrow> string list" where
  "split sep [] = [[]]"
| "split sep (c # cs) =
     (if c = sep then [] # split sep cs
      else (case split sep cs of [] \<Rightarrow> [[c]] | w # ws \<Rightarrow> (c # w) # ws))"

definition startswith :: "string \<Rightarrow> string \<Rightarrow> bool" where
  "startswith s p = prefix p s"

text \<open>
  \<open>Settings.assemble_cors_origins\<close>, the validator of \<open>BACKEND_CORS_ORIGINS\<close>. An absent
  value is \<open>None\<close>. The value returned in the second branch is handed on as it came.
\<close>

definition assemble_cors_origins :: "json \<Rightarrow> py_exn + json" where
  "assemble_cors_origins v =
     (case v of
        JNull \<Rightarrow> Inr (JList [JStr ''http://localhost:3000''])
      | JStr s \<Rightarrow>
          (if \<not> startswith s ''[''
           then Inr (JList (map (\<lambda>i. JStr (strip i)) (split (CHR '','') s)))
           else Inr v)
      | JList xs \<Rightarrow> Inr v
      | _ \<Rightarrow> Inl (ValueError v))"

section \<open>Guest accounts (\<open>app/schemas/auth.py\<close>)\<close>

definition ascii_lowercase :: string where
  "ascii_lowercase = ''abcdefghijklmnopqrstuvwxyz''"

definition digits :: string where
  "digits = ''0123456789''"

text \<open>
  \<open>random.choices(population, k=k)\<close> picks \<open>k\<close> elements with replacement, each at the
  index \<open>floor(random() * n)\<close>, which lies below \<open>n = len(population)\<close>; an empty
  population raises \<open>IndexError\<close>. The generator is a sequence of draws \<open>draw\<close> and a
  position in it; a draw is reduced modulo \<open>n\<close>, so that every sequence stands for a
  run of the generator and every run is some sequence. The new position is returned.
\<close>

definition choices :: "(nat \<Rightarrow> nat) \<Rightarrow> nat \<Rightarrow> string \<Rightarrow> nat \<Rightarrow> py_exn + (string \<times> nat)" where
  "choices draw pos population k =
     (if population = [] then Inl IndexError
      else Inr (map (\<lambda>j. population ! (draw (pos + j) mod length population)) [0..<k],
                pos + k))"

text \<open>
  \<open>GuestUserCreate.generate_guest_credentials\<close>, the validator that runs on the raw
  input dictionary before the fields are validated.
\<close>

definition generate_guest_credentials ::
    "(nat \<Rightarrow> nat) \<Rightarrow> nat \<Rightarrow> pydict \<Rightarrow> py_exn + (pydict \<times> nat)" where
  "generate_guest_credentials draw pos values0 =
     (case (if \<not> truthy (dict_get values0 ''username'')
            then (case choices draw pos (ascii_lowercase @ digits) 6 of
                    Inl e \<Rightarrow> Inl e
                  | Inr (random_suffix, pos1) \<Rightarrow>
                      Inr (AList.update ''username'' (JStr (''guest_'' @ random_suffix)) values0, pos1))
            else Inr (values0, pos)) of
        Inl e \<Rightarrow> Inl e
      | Inr (values1, pos1) \<Rightarrow>
          (case (if \<not> truthy (dict_get values1 ''email'')
                 then (case choices draw pos1 (ascii_lowercase @ digits) 8 of
                         Inl e \<Rightarrow> Inl e
                       | Inr (random_suffix, pos2) \<Rightarrow>
                           Inr (AList.update ''email''
                                  (JStr (''guest_'' @ random_suffix @ ''@guest.devinclone.app'')) values1,
                                pos2))
                 else Inr (values1, pos1)) of
             Inl e \<Rightarrow> Inl e
           | Inr (values2, pos2) \<Rightarrow>
               Inr (AList.update ''is_guest'' (JBool True) values2, pos2)))"

text \<open>
  The two patterns of the spec, as full matches: the character class \<open>[a-z0-9]\<close> is
  two ranges of code points; \<open>^guest_[a-z0-9]{6}$\<close> is the prefix followed by exactly six
  characters of the class, and \<open>^guest_[a-z0-9]{8}@guest\.devinclone\.app$\<close> the prefix,
  eight characters of the class and the literal domain.
\<close>

definition lower_alnum :: "char \<Rightarrow> bool" where
  "lower_alnum c =
     (let n = (of_char c :: nat) in (97 \<le> n \<and> n \<le> 122) \<or> (48 \<le> n \<and> n \<le> 57))"

definition matches_guest_username :: "string \<Rightarrow> bool" where
  "matches_guest_username s =
     (take 6 s = ''guest_'' \<and> length (drop 6 s) = 6 \<and> list_all lower_alnum (drop 6 s))"

definition matches_guest_email :: "string \<Rightarrow> bool" where
  "matches_guest_email s =
     (take 6 s = ''guest_'' \<and> list_all lower_alnum (take 8 (drop 6 s)) \<and>
      length (take 8 (drop 6 s)) = 8 \<and> drop 14 s = ''@guest.devinclone.app'')"

section \<open>The event gateway (\<open>openhands/server/routes/websocket_events.py\<close>)\<close>

subsection \<open>Interpreter operations on decoded values\<close>

text \<open>
  The two library functions the gateway calls are parameters of the model:
  \<open>json.loads\<close>, which returns the decoded value or raises, and \<open>str\<close> on an exception,
  which gives its message.
\<close>

record runtime =
  json_loads :: "string \<Rightarrow> py_exn + json"
  exn_str :: "py_exn \<Rightarrow> string"

text \<open>
  \<open>k in v\<close> for a string \<open>k\<close>: a key test on a dictionary, a membership test on a list,
  a substring test on a string, and a \<open>TypeError\<close> on every other value.
\<close>

fun py_contains :: "string \<Rightarrow> json \<Rightarrow> py_exn + bool" where
  "py_contains k (JObj kvs) = Inr (map_of kvs k \<noteq> None)"
| "py_contains k (JList xs) = Inr (List.member xs (JStr k))"
| "py_contains k (JStr s) = Inr (sublist k s)"
| "py_contains k v = Inl (TypeError (NotContainer v))"

text \<open>
  \<open>v[k]\<close> for a string \<open>k\<close>: the value under the key of a dictionary (\<open>KeyError\<close> when
  it is missing); lists and strings take integer indices only, the other values none.
\<close>

fun py_subscript :: "json \<Rightarrow> string \<Rightarrow> py_exn + json" where
  "py_subscript (JObj kvs) k =
     (case map_of kvs k of None \<Rightarrow> Inl (KeyError k) | Some x \<Rightarrow> Inr x)"
| "py_subscript v k = Inl (TypeError (BadSubscript v))"

text \<open>\<open>v.get(k, dflt)\<close>: only a dictionary has the method.\<close>

fun py_get :: "json \<Rightarrow> string \<Rightarrow> json \<Rightarrow> py_exn + json" where
  "py_get (JObj kvs) k dflt = Inr (dict_get_default kvs k dflt)"
| "py_get v k dflt = Inl (AttributeError v ''get'')"

text \<open>\<open>v + s\<close> for a string literal \<open>s\<close>: concatenation when \<open>v\<close> is a string.\<close>

fun py_add_str :: "json \<Rightarrow> string \<Rightarrow> py_exn + json" where
  "py_add_str (JStr a) s = Inr (JStr (a @ s))"
| "py_add_str v s = Inl (TypeError (BadOperand v))"

subsection \<open>The event sink\<close>

text \<open>\<open>EventStreamMock.add_event\<close>; the result \<open>None\<close> of the model is Python's \<open>None\<close>.\<close>

definition add_event :: "json \<Rightarrow> string \<Rightarrow> py_exn + json option" where
  "add_event event source =
     (case py_get event ''actionType'' JNull of
        Inl e \<Rightarrow> Inl e
      | Inr a \<Rightarrow>
          (if a = JStr ''ECHO_ACTION''
           then (case py_get event ''details'' JNull of
                   Inl e \<Rightarrow> Inl e
                 | Inr d \<Rightarrow>
                     Inr (Some (JObj [(''observationType'', JStr ''ECHO_OBSERVATION''),
                                      (''details'', d)])))
           else Inr None))"

subsection \<open>The connection registry\<close>

text \<open>
  A connection object is known by its identity. \<open>connect\<close> awaits \<open>websocket.accept()\<close>,
  whose outcome (\<open>None\<close>, or the exception it raises) is an argument, and then appends;
  \<open>disconnect\<close> is \<open>list.remove\<close>, which deletes the first occurrence and raises
  \<open>ValueError\<close> when there is none.
\<close>

type_synonym websocket = nat

record ConnectionManager =
  active_connections :: "websocket list"

definition connect :: "py_exn option \<Rightarrow> websocket \<Rightarrow> ConnectionManager \<Rightarrow> py_exn + ConnectionManager" where
  "connect accept websocket manager =
     (case accept of
        Some e \<Rightarrow> Inl e
      | None \<Rightarrow> Inr (manager\<lparr>active_connections := active_connections manager @ [websocket]\<rparr>))"

definition disconnect :: "websocket \<Rightarrow> ConnectionManager \<Rightarrow> py_exn + ConnectionManager" where
  "disconnect websocket manager =
     (if websocket \<in> set (active_connections manager)
      then Inr (manager\<lparr>active_connections := remove1 websocket (active_connections manager)\<rparr>)
      else Inl (ValueError (JStr ''list.remove(x): x not in list'')))"

text \<open>
  \<open>send_personal_message\<close> hands the message to \<open>websocket.send_text\<close>; a failure of the
  transport is logged and swallowed there, so a send never changes the control flow. The
  model records the messages handed over, in order.
\<close>

definition send_personal_message :: "json \<Rightarrow> json list \<Rightarrow> json list" where
  "send_personal_message message sent = sent @ [message]"

subsection \<open>One frame\<close>

text \<open>The test \<open>"type" in m and m["type"] == "action" and "actionType" in m\<close>.\<close>

definition is_action_payload :: "json \<Rightarrow> py_exn + bool" where
  "is_action_payload message_data =
     (case py_contains ''type'' message_data of
        Inl e \<Rightarrow> Inl e
      | Inr False \<Rightarrow> Inr False
      | Inr True \<Rightarrow>
          (case py_subscript message_data ''type'' of
             Inl e \<Rightarrow> Inl e
           | Inr t \<Rightarrow>
               (if t = JStr ''action'' then py_contains ''actionType'' message_data
                else Inr False)))"

text \<open>
  The dictionary display of the observation: its values are evaluated in the order in
  which they are written.
\<close>

definition observation_payload :: "json \<Rightarrow> json \<Rightarrow> py_exn + json" where
  "observation_payload message_data response =
     (case py_get message_data ''eventId'' (JStr []) of
        Inl e \<Rightarrow> Inl e
      | Inr eid \<Rightarrow>
     (case py_add_str eid ''_obs'' of
        Inl e \<Rightarrow> Inl e
      | Inr event_id \<Rightarrow>
     (case py_get message_data ''timestamp'' (JStr []) of
        Inl e \<Rightarrow> Inl e
      | Inr ts \<Rightarrow>
     (case py_get response ''observationType'' JNull of
        Inl e \<Rightarrow> Inl e
      | Inr ot \<Rightarrow>
     (case py_get response ''details'' JNull of
        Inl e \<Rightarrow> Inl e
      | Inr d \<Rightarrow>
          Inr (JObj [(''eventId'', event_id),
                     (''timestamp'', ts),
                     (''source'', JStr ''WebSocketGateway''),
                     (''type'', JStr ''observation''),
                     (''observationType'', ot),
                     (''details'', d)]))))))"

text \<open>
  The body of the inner \<open>try\<close> after decoding: every path ends in one call of
  \<open>send_personal_message\<close> or raises before it; the result is the message of that call.
\<close>

definition process_message :: "string \<Rightarrow> json \<Rightarrow> py_exn + json" where
  "process_message client_id message_data =
     (case is_action_payload message_data of
        Inl e \<Rightarrow> Inl e
      | Inr False \<Rightarrow>
          Inr (JObj [(''error'', JStr ''Invalid message format, expected ActionPayload'')])
      | Inr True \<Rightarrow>
          (case add_event message_data (''ws_client:'' @ client_id) of
             Inl e \<Rightarrow> Inl e
           | Inr None \<Rightarrow>
               Inr (JObj [(''status'', JStr ''action_received_but_no_direct_response'')])
           | Inr (Some response) \<Rightarrow>
               (if truthy response then observation_payload message_data response
                else Inr (JObj [(''status'', JStr ''action_received_but_no_direct_response'')]))))"

text \<open>The two \<open>except\<close> clauses of the inner \<open>try\<close>.\<close>

definition except_reply :: "runtime \<Rightarrow> py_exn \<Rightarrow> json" where
  "except_reply rt e =
     (if e = JSONDecodeError then JObj [(''error'', JStr ''Invalid JSON format'')]
      else JObj [(''error'', JStr (''Server error: '' @ exn_str rt e))])"

definition handle_text :: "runtime \<Rightarrow> string \<Rightarrow> string \<Rightarrow> json list \<Rightarrow> json list" where
  "handle_text rt client_id data sent =
     (case json_loads rt data of
        Inl e \<Rightarrow> send_personal_message (except_reply rt e) sent
      | Inr message_data \<Rightarrow>
          (case process_message client_id message_data of
             Inl e \<Rightarrow> send_personal_message (except_reply rt e) sent
           | Inr reply \<Rightarrow> send_personal_message reply sent))"

subsection \<open>The loop and the endpoint\<close>

text \<open>
  What one call of \<open>websocket.receive_text()\<close> gives: a text frame, the exception
  \<open>WebSocketDisconnect\<close>, or another exception. The loop consumes these in order. It has
  no exit of its own: when the outcomes known so far are used up it is suspended in
  \<open>receive_text\<close>, which is the state \<open>Receiving\<close>; it ends only when a receive raises.
\<close>

datatype recv = Text string | WebSocketDisconnect | RecvException py_exn

datatype loop_state = Receiving | Disconnected | Unhandled py_exn

fun receive_loop :: "runtime \<Rightarrow> string \<Rightarrow> recv list \<Rightarrow> json list \<Rightarrow> json list \<times> loop_state" where
  "receive_loop rt client_id [] sent = (sent, Receiving)"
| "receive_loop rt client_id (Text data # rs) sent =
     receive_loop rt client_id rs (handle_text rt client_id data sent)"
| "receive_loop rt client_id (WebSocketDisconnect # rs) sent = (sent, Disconnected)"
| "receive_loop rt client_id (RecvException e # rs) sent = (sent, Unhandled e)"

text \<open>
  \<open>websocket_endpoint\<close> for one connection, with the registry as state. \<open>connect\<close> is
  called before the outer \<open>try\<close>, so an exception of \<open>accept\<close> leaves the function at
  once. Both \<open>except\<close> clauses of the outer \<open>try\<close> only log, and the \<open>finally\<close> clause
  calls \<open>disconnect\<close>, whose exception, if any, leaves the function.
\<close>

datatype outcome = Raises py_exn | AwaitingFrame | Returns

definition websocket_endpoint ::
    "runtime \<Rightarrow> py_exn option \<Rightarrow> websocket \<Rightarrow> string \<Rightarrow> recv list \<Rightarrow> ConnectionManager
       \<Rightarrow> outcome \<times> ConnectionManager \<times> json list" where
  "websocket_endpoint rt accept websocket client_id frames manager =
     (case connect accept websocket manager of
        Inl e \<Rightarrow> (Raises e, manager, [])
      | Inr manager1 \<Rightarrow>
          (case receive_loop rt client_id frames [] of
             (sent, Receiving) \<Rightarrow> (AwaitingFrame, manager1, sent)
           | (sent, _) \<Rightarrow>
               (case disconnect websocket manager1 of
                  Inl e \<Rightarrow> (Raises e, manager1, sent)
                | Inr manager2 \<Rightarrow> (Returns, manager2, sent))))"

text \<open>
  Several connections share the registry. Each endpoint task touches it twice, in steps
  that contain no suspension point: when its \<open>connect\<close> appends, and when its \<open>finally\<close>
  clause removes. A run of the process is the sequence of these steps in the order in
  which the scheduler executes them.
\<close>

datatype lifecycle = Accepted websocket | Terminated websocket

fun run_lifecycle :: "lifecycle list \<Rightarrow> ConnectionManager \<Rightarrow> py_exn + ConnectionManager" where
  "run_lifecycle [] manager = Inr manager"
| "run_lifecycle (Accepted w # evs) manager =
     (case connect None w manager of
        Inl e \<Rightarrow> Inl e
      | Inr manager' \<Rightarrow> run_lifecycle evs manager')"
| "run_lifecycle (Terminated w # evs) manager =
     (case disconnect w manager of
        Inl e \<Rightarrow> Inl e
      | Inr manager' \<Rightarrow> run_lifecycle evs manager')"

text \<open>
  The sequences that endpoint tasks can produce: a connection object is fresh when it is
  accepted, and a task ends once, after its connection was accepted. \<open>started\<close> and
  \<open>ended\<close> are the connections accepted and terminated before the sequence.
\<close>

fun schedule :: "websocket list \<Rightarrow> websocket list \<Rightarrow> lifecycle list \<Rightarrow> bool" where
  "schedule started ended [] = True"
| "schedule started ended (Accepted w # evs) =
     (w \<notin> set started \<and> schedule (w # started) ended evs)"
| "schedule started ended (Terminated w # evs) =
     (w \<in> set started \<and> w \<notin> set ended \<and> schedule started (w # ended) evs)"

fun accepted :: "lifecycle list \<Rightarrow> websocket list" where
  "accepted [] = []"
| "accepted (Accepted w # evs) = w # accepted evs"
| "accepted (Terminated w # evs) = accepted evs"

fun terminated :: "lifecycle list \<Rightarrow> websocket list" where
  "terminated [] = []"
| "terminated (Accepted w # evs) = terminated evs"
| "terminated (Terminated w # evs) = w # terminated evs"

subsection \<open>The endpoint as a task among others\<close>

text \<open>
  An endpoint task waits in \<open>websocket.accept()\<close> and then, again and again, in
  \<open>websocket.receive_text()\<close>; what the awaited call gives decides its next step.
  \<open>Accept\<close> is the outcome of the first, \<open>Receive\<close> the outcome of one call of the
  second. A task has not started, is in its loop with the messages sent so far, has left
  the loop and executed the \<open>finally\<close> clause (with the exception of the removal, if
  it raised), or has failed in \<open>connect\<close>, before the \<open>try\<close> statement.
  \<open>endpoint_step\<close> is the code of \<open>websocket_endpoint\<close> from one of these waits to the
  next, acting on the shared registry; the sends in between do not touch the registry
  and never change the control flow. An outcome that the task is not waiting for is no
  step.
\<close>

datatype await = Accept "py_exn option" | Receive recv

datatype task = Start | Looping "json list" | Ended "py_exn option" "json list" | Failed py_exn

fun endpoint_step ::
    "runtime \<Rightarrow> string \<Rightarrow> websocket \<Rightarrow> await \<Rightarrow> task \<times> ConnectionManager
       \<Rightarrow> task \<times> ConnectionManager" where
  "endpoint_step rt client_id websocket (Accept a) (Start, manager) =
     (case connect a websocket manager of
        Inl e \<Rightarrow> (Failed e, manager)
      | Inr manager1 \<Rightarrow> (Looping [], manager1))"
| "endpoint_step rt client_id websocket (Receive (Text data)) (Looping sent, manager) =
     (Looping (handle_text rt client_id data sent), manager)"
| "endpoint_step rt client_id websocket (Receive r) (Looping sent, manager) =
     (case disconnect websocket manager of
        Inl e \<Rightarrow> (Ended (Some e) sent, manager)
      | Inr manager2 \<Rightarrow> (Ended None sent, manager2))"
| "endpoint_step rt client_id websocket ev (t, manager) = (t, manager)"

text \<open>What the caller of \<open>websocket_endpoint\<close> sees of a task that has started.\<close>

fun task_outcome :: "task \<times> ConnectionManager \<Rightarrow> (outcome \<times> ConnectionManager \<times> json list) option" where
  "task_outcome (Start, manager) = None"
| "task_outcome (Looping sent, manager) = Some (AwaitingFrame, manager, sent)"
| "task_outcome (Ended None sent, manager) = Some (Returns, manager, sent)"
| "task_outcome (Ended (Some e) sent, manager) = Some (Raises e, manager, sent)"
| "task_outcome (Failed e, manager) = Some (Raises e, manager, [])"

text \<open>
  The process: one task per connection object, all on the one registry. A run is a
  sequence of pairs of a connection and the outcome its task was waiting for, in the
  order of the scheduler; \<open>client_id\<close> gives each connection its client identifier.
\<close>

fun system_run ::
    "runtime \<Rightarrow> (websocket \<Rightarrow> string) \<Rightarrow> (websocket \<times> await) list
       \<Rightarrow> (websocket \<Rightarrow> task) \<times> ConnectionManager
       \<Rightarrow> (websocket \<Rightarrow> task) \<times> ConnectionManager" where
  "system_run rt client_id [] st = st"
| "system_run rt client_id ((w, ev) # evs) (tasks, manager) =
     (case endpoint_step rt (client_id w) w ev (tasks w, manager) of
        (t, manager') \<Rightarrow> system_run rt client_id evs (tasks(w := t), manager'))"

text \<open>
  A task whose connection was accepted and registered, one that is in its loop, and
  one that has left its loop.
\<close>

fun is_registered :: "task \<Rightarrow> bool" where
  "is_registered (Looping sent) = True"
| "is_registered (Ended x sent) = True"
| "is_registered t = False"

fun is_looping :: "task \<Rightarrow> bool" where
  "is_looping (Looping sent) = True"
| "is_looping t = False"

fun is_ended :: "task \<Rightarrow> bool" where
  "is_ended (Ended x sent) = True"
| "is_ended t = False"

subsection \<open>A decoder for concrete frames\<close>

text \<open>
  The theorems below hold for every decoder. To evaluate the model on concrete frames,
  \<open>sample_loads\<close> decodes the two action frames used in the examples as \<open>json.loads\<close>
  does, decodes the text \<open>NaN\<close> to the float of that name, as \<open>json.loads\<close> does,
  raises \<open>RecursionError\<close> on \<open>deep_frame\<close>, a hundred thousand opening brackets, as
  \<open>json.loads\<close> does under the interpreter's default recursion limit, and rejects every
  other text; the examples apply it, beyond these four, to the text \<open>not json\<close> only,
  which \<open>json.loads\<close> rejects too. \<open>sample_str\<close> gives the message of the exceptions
  constructed with one and the message of CPython 3.8 to 3.13 for \<open>in\<close> on a float. \<open>sample_draw\<close> is one sequence of draws of the random generator, and
  \<open>sample_plan_value\<close> one assignment of value strings to the plans.
\<close>

definition echo_frame :: string where
  \<open>echo_frame =
     ''{"type":"action","actionType":"ECHO_ACTION","eventId":"e1","timestamp":"t1","details":{"x":1}}''\<close>

definition bare_echo_frame :: string where
  \<open>bare_echo_frame = ''{"type":"action","actionType":"ECHO_ACTION"}''\<close>

definition deep_frame :: string where
  "deep_frame = replicate 100000 (CHR ''['')"

definition sample_loads :: "string \<Rightarrow> py_exn + json" where
  "sample_loads data =
     (if data = echo_frame
      then Inr (JObj [(''type'', JStr ''action''), (''actionType'', JStr ''ECHO_ACTION''),
                      (''eventId'', JStr ''e1''), (''timestamp'', JStr ''t1''),
                      (''details'', JObj [(''x'', JInt 1)])])
      else if data = bare_echo_frame
      then Inr (JObj [(''type'', JStr ''action''), (''actionType'', JStr ''ECHO_ACTION'')])
      else if data = ''NaN''
      then Inr (JFloat NaN)
      else if data = deep_frame
      then Inl (RecursionError
                  ''maximum recursion depth exceeded while decoding a JSON array from a unicode string'')
      else Inl JSONDecodeError)"

fun sample_str :: "py_exn \<Rightarrow> string" where
  "sample_str (NotImplementedError m) = m"
| "sample_str (RecursionError m) = m"
| "sample_str (OtherException m) = m"
| "sample_str (TypeError (NotContainer (JFloat f))) =
     ''argument of type '' @ [CHR 0x27] @ ''float'' @ [CHR 0x27] @ '' is not iterable''"
| "sample_str e = []"

definition sample_runtime :: runtime where
  "sample_runtime = \<lparr>json_loads = sample_loads, exn_str = sample_str\<rparr>"

definition sample_draw :: "nat \<Rightarrow> nat" where
  "sample_draw i = 7 * i + 3"


section \<open>Properties of the payment client and the subscription endpoints\<close>

text \<open>
  C9. The status mapping of the disabled payment client is a constant function: whatever
  the provider status string, the result is \<open>CANCELED\<close>.
\<close>

theorem map_subscription_status_constant:
  "map_subscription_status stripe_status = CANCELED"
  by (simp add: map_subscription_status_def)

text \<open>
  C8. Whatever the request body and the authenticated user that reach the handlers, the
  checkout, portal, cancel and reactivate endpoints raise an HTTP exception with status
  503 and their fixed detail string.
\<close>

theorem payment_endpoints_unavailable:
  "create_checkout_session checkout_request current_user =
     Inl (HTTPException 503 ''Payment processing is currently unavailable'') \<and>
   create_portal_session portal_request current_user =
     Inl (HTTPException 503 ''Customer portal is currently unavailable'') \<and>
   cancel_subscription current_user =
     Inl (HTTPException 503 ''Subscription management is currently unavailable'') \<and>
   reactivate_subscription current_user =
     Inl (HTTPException 503 ''Subscription management is currently unavailable'')"
  by (simp add: create_checkout_session_def create_portal_session_def
      cancel_subscription_def reactivate_subscription_def HTTP_503_SERVICE_UNAVAILABLE_def)














section \<open>Properties of the configuration parser\<close>

text \<open>
  C7. The validator of the CORS origins turns the string \<open>http://a.com,http://b.com\<close>
  into the list of the two origins, an absent value into the list holding
  \<open>http://localhost:3000\<close>, and raises \<open>ValueError\<close> on a value that is neither a string,
  nor a list, nor absent.
\<close>

theorem cors_origins_parser:
  "assemble_cors_origins (JStr ''http://a.com,http://b.com'') =
     Inr (JList [JStr ''http://a.com'', JStr ''http://b.com'']) \<and>
   assemble_cors_origins JNull = Inr (JList [JStr ''http://localhost:3000'']) \<and>
   ((\<forall>s. v \<noteq> JStr s) \<and> (\<forall>xs. v \<noteq> JList xs) \<and> v \<noteq> JNull \<longrightarrow>
      assemble_cors_origins v = Inl (ValueError v))"
proof (intro conjI impI)
  show "assemble_cors_origins (JStr ''http://a.com,http://b.com'') =
     Inr (JList [JStr ''http://a.com'', JStr ''http://b.com''])"
    by (simp add: assemble_cors_origins_def startswith_def strip_def isspace_def)
  show "assemble_cors_origins JNull = Inr (JList [JStr ''http://localhost:3000''])"
    by (simp add: assemble_cors_origins_def)
  assume "(\<forall>s. v \<noteq> JStr s) \<and> (\<forall>xs. v \<noteq> JList xs) \<and> v \<noteq> JNull"
  then show "assemble_cors_origins v = Inl (ValueError v)"
    by (cases v) (simp_all add: assemble_cors_origins_def)
qed

theorem cors_origins_parser_witness:
  "assemble_cors_origins (JInt 5) = Inl (ValueError (JInt 5)) \<and>
   assemble_cors_origins (JObj []) = Inl (ValueError (JObj []))"
  using cors_origins_parser [of "JInt 5"] cors_origins_parser [of "JObj []"] by simp

section \<open>Properties of guest account creation\<close>

lemma population_lower_alnum: "list_all lower_alnum (ascii_lowercase @ digits)"
  by (simp add: ascii_lowercase_def digits_def lower_alnum_def)

lemma choices_ok:
  "\<exists>suffix. choices draw pos (ascii_lowercase @ digits) k = Inr (suffix, pos + k) \<and>
     length suffix = k \<and> list_all lower_alnum suffix"
proof -
  let ?pop = "ascii_lowercase @ digits"
  have ne: "?pop \<noteq> []" by (simp add: ascii_lowercase_def)
  have "\<And>i. lower_alnum (?pop ! (i mod length ?pop))"
    using population_lower_alnum ne
    by (metis length_greater_0_conv list_all_length mod_less_divisor)
  then have "list_all lower_alnum (map (\<lambda>j. ?pop ! (draw (pos + j) mod length ?pop)) [0..<k])"
    by (simp add: list_all_iff)
  with ne show ?thesis by (simp add: choices_def)
qed

lemma matches_username: "length suf = 6 \<Longrightarrow> list_all lower_alnum suf \<Longrightarrow>
   matches_guest_username (''guest_'' @ suf)"
  by (simp add: matches_guest_username_def)

lemma matches_email: "length suf = 8 \<Longrightarrow> list_all lower_alnum suf \<Longrightarrow>
   matches_guest_email (''guest_'' @ suf @ ''@guest.devinclone.app'')"
  by (simp add: matches_guest_email_def)

lemma map_of_update_other: "k \<noteq> k' \<Longrightarrow> map_of (AList.update k v al) k' = map_of al k'"
  by (simp add: update_conv')

lemma dict_get_update_other: "k \<noteq> k' \<Longrightarrow> dict_get (AList.update k v al) k' = dict_get al k'"
  by (simp add: dict_get_def update_conv')

lemma username_step:
  "\<exists>values1 pos1.
     (if \<not> truthy (dict_get values0 ''username'')
      then (case choices draw pos (ascii_lowercase @ digits) 6 of
              Inl e \<Rightarrow> Inl e
            | Inr (random_suffix, pos1) \<Rightarrow>
                Inr (AList.update ''username'' (JStr (''guest_'' @ random_suffix)) values0, pos1))
      else Inr (values0, pos)) = Inr (values1, pos1) \<and>
     dict_get values1 ''email'' = dict_get values0 ''email'' \<and>
     (\<not> truthy (dict_get values0 ''username'') \<longrightarrow>
        (\<exists>u. map_of values1 ''username'' = Some (JStr u) \<and> matches_guest_username u))"
proof (cases "truthy (dict_get values0 ''username'')")
  case True
  then show ?thesis by simp
next
  case False
  obtain s6 where s6: "choices draw pos (ascii_lowercase @ digits) 6 = Inr (s6, pos + 6)"
      "length s6 = 6" "list_all lower_alnum s6"
    using choices_ok [of draw pos 6] by blast
  have "matches_guest_username (''guest_'' @ s6)"
    using s6(2,3) by (rule matches_username)
  with False s6(1) show ?thesis
    by (simp add: dict_get_update_other update_conv')
qed

lemma email_step:
  "\<exists>values2 pos2.
     (if \<not> truthy (dict_get values1 ''email'')
      then (case choices draw pos1 (ascii_lowercase @ digits) 8 of
              Inl e \<Rightarrow> Inl e
            | Inr (random_suffix, pos2) \<Rightarrow>
                Inr (AList.update ''email''
                       (JStr (''guest_'' @ random_suffix @ ''@guest.devinclone.app'')) values1,
                     pos2))
      else Inr (values1, pos1)) = Inr (values2, pos2) \<and>
     map_of values2 ''username'' = map_of values1 ''username'' \<and>
     (\<not> truthy (dict_get values1 ''email'') \<longrightarrow>
        (\<exists>m. map_of values2 ''email'' = Some (JStr m) \<and> matches_guest_email m))"
proof (cases "truthy (dict_get values1 ''email'')")
  case True
  then show ?thesis by simp
next
  case False
  obtain s8 where s8: "choices draw pos1 (ascii_lowercase @ digits) 8 = Inr (s8, pos1 + 8)"
      "length s8 = 8" "list_all lower_alnum s8"
    using choices_ok [of draw pos1 8] by blast
  have "matches_guest_email (''guest_'' @ s8 @ ''@guest.devinclone.app'')"
    using s8(2,3) by (rule matches_email)
  with False s8(1) show ?thesis
    by (simp add: update_conv')
qed

text \<open>
  C4. Whatever the input dictionary and the draws of the generator, the validator
  returns a dictionary whose \<open>is_guest\<close> is \<open>True\<close>, also when the caller passed
  \<open>False\<close>. When the input has no username (the key is absent, or its value is \<open>None\<close>,
  empty or otherwise false), the returned username is \<open>guest_\<close> followed by six
  characters of \<open>[a-z0-9]\<close>; when it has no email, the returned email is \<open>guest_\<close>, eight
  such characters and \<open>@guest.devinclone.app\<close>.
\<close>

theorem guest_credentials_synthesis:
  "\<exists>values' pos'. generate_guest_credentials draw pos values0 = Inr (values', pos') \<and>
     map_of values' ''is_guest'' = Some (JBool True) \<and>
     (\<not> truthy (dict_get values0 ''username'') \<longrightarrow>
        (\<exists>u. map_of values' ''username'' = Some (JStr u) \<and> matches_guest_username u)) \<and>
     (\<not> truthy (dict_get values0 ''email'') \<longrightarrow>
        (\<exists>m. map_of values' ''email'' = Some (JStr m) \<and> matches_guest_email m))"
proof -
  obtain values1 pos1 where st1:
    "(if \<not> truthy (dict_get values0 ''username'')
      then (case choices draw pos (ascii_lowercase @ digits) 6 of
              Inl e \<Rightarrow> Inl e
            | Inr (random_suffix, pos1) \<Rightarrow>
                Inr (AList.update ''username'' (JStr (''guest_'' @ random_suffix)) values0, pos1))
      else Inr (values0, pos)) = Inr (values1, pos1)"
    and e1: "dict_get values1 ''email'' = dict_get values0 ''email''"
    and u1: "\<not> truthy (dict_get values0 ''username'') \<longrightarrow>
        (\<exists>u. map_of values1 ''username'' = Some (JStr u) \<and> matches_guest_username u)"
    using username_step [of values0 draw pos] by blast
  obtain values2 pos2 where st2:
    "(if \<not> truthy (dict_get values1 ''email'')
      then (case choices draw pos1 (ascii_lowercase @ digits) 8 of
              Inl e \<Rightarrow> Inl e
            | Inr (random_suffix, pos2) \<Rightarrow>
                Inr (AList.update ''email''
                       (JStr (''guest_'' @ random_suffix @ ''@guest.devinclone.app'')) values1,
                     pos2))
      else Inr (values1, pos1)) = Inr (values2, pos2)"
    and u2: "map_of values2 ''username'' = map_of values1 ''username''"
    and m2: "\<not> truthy (dict_get values1 ''email'') \<longrightarrow>
        (\<exists>m. map_of values2 ''email'' = Some (JStr m) \<and> matches_guest_email m)"
    using email_step [of values1 draw pos1] by blast
  have res: "generate_guest_credentials draw pos values0 =
      Inr (AList.update ''is_guest'' (JBool True) values2, pos2)"
    unfolding generate_guest_credentials_def st1 using st2 by simp
  let ?v = "AList.update ''is_guest'' (JBool True) values2"
  have g: "map_of ?v ''is_guest'' = Some (JBool True)"
    by (simp add: update_conv')
  have ku: "map_of ?v ''username'' = map_of values1 ''username''"
    using u2 by (simp add: update_conv')
  have km: "map_of ?v ''email'' = map_of values2 ''email''"
    by (simp add: update_conv')
  show ?thesis
    using res g ku km u1 m2 e1 by auto
qed

theorem guest_credentials_synthesis_witness:
  "\<exists>values' pos'.
     generate_guest_credentials sample_draw 0 [(''is_guest'', JBool False)] = Inr (values', pos') \<and>
     map_of values' ''is_guest'' = Some (JBool True) \<and>
     (\<exists>u. map_of values' ''username'' = Some (JStr u) \<and> matches_guest_username u) \<and>
     (\<exists>m. map_of values' ''email'' = Some (JStr m) \<and> matches_guest_email m)"
  using guest_credentials_synthesis [of sample_draw 0 "[(''is_guest'', JBool False)]"]
  by (simp add: dict_get_def)

section \<open>Properties of the event gateway\<close>




lemma except_reply_no_type: "except_reply rt e = JObj obs \<Longrightarrow> map_of obs ''type'' = None"
  by (auto simp: except_reply_def split: if_splits)

lemma observation_payload_fields:
  assumes "observation_payload (JObj kvs) response = Inr (JObj obs)"
  shows "(map_of kvs ''eventId'' = None \<longrightarrow> map_of obs ''eventId'' = Some (JStr ''_obs'')) \<and>
         (map_of kvs ''timestamp'' = None \<longrightarrow> map_of obs ''timestamp'' = Some (JStr []))"
  using assms
  by (auto simp: observation_payload_def dict_get_default_def split: sum.splits option.splits)

lemma process_message_observation:
  assumes "process_message client_id (JObj kvs) = Inr (JObj obs)"
    and "map_of obs ''type'' = Some (JStr ''observation'')"
  shows "\<exists>response. observation_payload (JObj kvs) response = Inr (JObj obs)"
  using assms
  by (auto simp: process_message_def split: sum.splits bool.splits option.splits if_splits)

text \<open>
  C2, as amended. When a frame that decodes to a dictionary is answered with an
  observation, an absent \<open>eventId\<close> gives the observation the event identifier \<open>_obs\<close>
  (the empty default followed by the suffix), and an absent \<open>timestamp\<close> gives it the
  empty string as timestamp.
\<close>

theorem observation_defaults:
  assumes "json_loads rt data = Inr (JObj kvs)"
    and "handle_text rt client_id data sent = sent @ [JObj obs]"
    and "map_of obs ''type'' = Some (JStr ''observation'')"
  shows "(map_of kvs ''eventId'' = None \<longrightarrow> map_of obs ''eventId'' = Some (JStr ''_obs'')) \<and>
         (map_of kvs ''timestamp'' = None \<longrightarrow> map_of obs ''timestamp'' = Some (JStr []))"
proof (cases "process_message client_id (JObj kvs)")
  case (Inl e)
  with assms(1,2) have "except_reply rt e = JObj obs"
    by (simp add: handle_text_def send_personal_message_def)
  then have "map_of obs ''type'' = None" by (rule except_reply_no_type)
  with assms(3) show ?thesis by simp
next
  case (Inr reply)
  with assms(1,2) have "reply = JObj obs"
    by (simp add: handle_text_def send_personal_message_def)
  with Inr assms(3) obtain response
    where "observation_payload (JObj kvs) response = Inr (JObj obs)"
    using process_message_observation by blast
  then show ?thesis by (rule observation_payload_fields)
qed

theorem observation_defaults_witness:
  "map_of [(''eventId'', JStr ''_obs''), (''timestamp'', JStr []),
           (''source'', JStr ''WebSocketGateway''), (''type'', JStr ''observation''),
           (''observationType'', JStr ''ECHO_OBSERVATION''), (''details'', JNull)] ''eventId''
     = Some (JStr ''_obs'') \<and>
   handle_text sample_runtime ''unknown'' bare_echo_frame [] =
     [JObj [(''eventId'', JStr ''_obs''), (''timestamp'', JStr []),
           (''source'', JStr ''WebSocketGateway''), (''type'', JStr ''observation''),
           (''observationType'', JStr ''ECHO_OBSERVATION''), (''details'', JNull)]]"
proof -
  have l: "json_loads sample_runtime bare_echo_frame =
      Inr (JObj [(''type'', JStr ''action''), (''actionType'', JStr ''ECHO_ACTION'')])"
    by (simp add: sample_runtime_def sample_loads_def bare_echo_frame_def echo_frame_def)
  have h: "handle_text sample_runtime ''unknown'' bare_echo_frame [] =
     [] @ [JObj [(''eventId'', JStr ''_obs''), (''timestamp'', JStr []),
           (''source'', JStr ''WebSocketGateway''), (''type'', JStr ''observation''),
           (''observationType'', JStr ''ECHO_OBSERVATION''), (''details'', JNull)]]"
    by (simp add: handle_text_def l process_message_def is_action_payload_def add_event_def
        observation_payload_def dict_get_default_def send_personal_message_def)
  have t: "map_of [(''eventId'', JStr ''_obs''), (''timestamp'', JStr []),
           (''source'', JStr ''WebSocketGateway''), (''type'', JStr ''observation''),
           (''observationType'', JStr ''ECHO_OBSERVATION''), (''details'', JNull)] ''type''
     = Some (JStr ''observation'')" by simp
  from observation_defaults [OF l h t] h show ?thesis by simp
qed

text \<open>
  The event identifier is not the empty string: the echo action without \<open>eventId\<close> and
  \<open>timestamp\<close> is answered with the identifier \<open>_obs\<close>.
\<close>

theorem absent_event_id_counterexample:
  "json_loads sample_runtime bare_echo_frame =
     Inr (JObj [(''type'', JStr ''action''), (''actionType'', JStr ''ECHO_ACTION'')]) \<and>
   receive_loop sample_runtime ''unknown'' [Text bare_echo_frame] [] =
     ([JObj [(''eventId'', JStr ''_obs''), (''timestamp'', JStr []),
             (''source'', JStr ''WebSocketGateway''), (''type'', JStr ''observation''),
             (''observationType'', JStr ''ECHO_OBSERVATION''), (''details'', JNull)]],
      Receiving) \<and>
   JStr ''_obs'' \<noteq> JStr []"
  by (simp add: sample_runtime_def sample_loads_def bare_echo_frame_def echo_frame_def
      handle_text_def process_message_def is_action_payload_def add_event_def
      observation_payload_def dict_get_default_def send_personal_message_def)











section \<open>Properties of the connection registry\<close>

lemma connect_accepted:
  "connect None w manager =
     Inr (manager\<lparr>active_connections := active_connections manager @ [w]\<rparr>)"
  by (simp add: connect_def)

lemma disconnect_absent:
  "w \<notin> set (active_connections manager) \<Longrightarrow>
   disconnect w manager = Inl (ValueError (JStr ''list.remove(x): x not in list''))"
  by (simp add: disconnect_def)

lemma disconnect_present:
  "w \<in> set (active_connections manager) \<Longrightarrow>
   disconnect w manager =
     Inr (manager\<lparr>active_connections := remove1 w (active_connections manager)\<rparr>)"
  by (simp add: disconnect_def)

lemma run_lifecycle_registry:
  assumes "schedule started ended evs"
    and "distinct (active_connections manager)"
    and "set (active_connections manager) = set started - set ended"
    and "set ended \<subseteq> set started"
  shows "\<exists>manager'. run_lifecycle evs manager = Inr manager' \<and>
     distinct (active_connections manager') \<and>
     set (active_connections manager') =
       (set started \<union> set (accepted evs)) - (set ended \<union> set (terminated evs)) \<and>
     length (active_connections manager') + length (terminated evs) =
       length (active_connections manager) + length (accepted evs)"
  using assms
proof (induction evs arbitrary: started ended manager)
  case Nil
  then show ?case by simp
next
  case (Cons ev evs)
  show ?case
  proof (cases ev)
    case (Accepted w)
    let ?m = "manager\<lparr>active_connections := active_connections manager @ [w]\<rparr>"
    from Cons.prems Accepted have fresh: "w \<notin> set started" and s: "schedule (w # started) ended evs"
      by simp_all
    from fresh Cons.prems(3) have nin: "w \<notin> set (active_connections manager)" by auto
    from fresh Cons.prems(4) have nend: "w \<notin> set ended" by auto
    have d: "distinct (active_connections ?m)" using Cons.prems(2) nin by simp
    have e: "set (active_connections ?m) = set (w # started) - set ended"
      using Cons.prems(3) nend by auto
    have sub: "set ended \<subseteq> set (w # started)" using Cons.prems(4) by auto
    from Cons.IH [OF s d e sub] obtain manager' where
      r: "run_lifecycle evs ?m = Inr manager'" and
      d': "distinct (active_connections manager')" and
      s': "set (active_connections manager') =
         (set (w # started) \<union> set (accepted evs)) - (set ended \<union> set (terminated evs))" and
      l': "length (active_connections manager') + length (terminated evs) =
         length (active_connections ?m) + length (accepted evs)"
      by blast
    have "run_lifecycle (ev # evs) manager = Inr manager'"
      using r by (simp add: Accepted connect_accepted)
    moreover have "set (active_connections manager') =
       (set started \<union> set (accepted (ev # evs))) - (set ended \<union> set (terminated (ev # evs)))"
      using s' by (auto simp: Accepted)
    moreover have "length (active_connections manager') + length (terminated (ev # evs)) =
       length (active_connections manager) + length (accepted (ev # evs))"
      using l' by (simp add: Accepted)
    ultimately show ?thesis using d' by blast
  next
    case (Terminated w)
    let ?m = "manager\<lparr>active_connections := remove1 w (active_connections manager)\<rparr>"
    from Cons.prems Terminated have st: "w \<in> set started" and ne: "w \<notin> set ended"
      and s: "schedule started (w # ended) evs"
      by simp_all
    from st ne Cons.prems(3) have inn: "w \<in> set (active_connections manager)" by auto
    have d: "distinct (active_connections ?m)" using Cons.prems(2) by simp
    have e: "set (active_connections ?m) = set started - set (w # ended)"
      using Cons.prems(2,3) by auto
    have sub: "set (w # ended) \<subseteq> set started" using Cons.prems(4) st by auto
    from Cons.IH [OF s d e sub] obtain manager' where
      r: "run_lifecycle evs ?m = Inr manager'" and
      d': "distinct (active_connections manager')" and
      s': "set (active_connections manager') =
         (set started \<union> set (accepted evs)) - (set (w # ended) \<union> set (terminated evs))" and
      l': "length (active_connections manager') + length (terminated evs) =
         length (active_connections ?m) + length (accepted evs)"
      by blast
    have len: "length (active_connections ?m) + 1 = length (active_connections manager)"
      using inn by (simp add: length_remove1) (metis One_nat_def Suc_pred length_pos_if_in_set)
    have "run_lifecycle (ev # evs) manager = Inr manager'"
      using r inn by (simp add: Terminated disconnect_present)
    moreover have "set (active_connections manager') =
       (set started \<union> set (accepted (ev # evs))) - (set ended \<union> set (terminated (ev # evs)))"
      using s' by (auto simp: Terminated)
    moreover have "length (active_connections manager') + length (terminated (ev # evs)) =
       length (active_connections manager) + length (accepted (ev # evs))"
      using l' len by (simp add: Terminated)
    ultimately show ?thesis using d' by blast
  qed
qed

lemma run_lifecycle_from_empty:
  assumes "schedule [] [] evs"
  shows "\<exists>manager'. run_lifecycle evs \<lparr>active_connections = []\<rparr> = Inr manager' \<and>
     set (active_connections manager') = set (accepted evs) - set (terminated evs) \<and>
     length (active_connections manager') = length (accepted evs) - length (terminated evs)"
proof -
  from run_lifecycle_registry [OF assms, of "\<lparr>active_connections = []\<rparr>"]
  obtain manager' where r: "run_lifecycle evs \<lparr>active_connections = []\<rparr> = Inr manager'"
    and s: "set (active_connections manager') = set (accepted evs) - set (terminated evs)"
    and l: "length (active_connections manager') + length (terminated evs) = length (accepted evs)"
    by auto
  from l have "length (active_connections manager') = length (accepted evs) - length (terminated evs)"
    by arith
  with r s show ?thesis by blast
qed

lemma endpoint_terminated:
  assumes "snd (receive_loop rt client_id frames []) \<noteq> Receiving"
    and "w \<notin> set (active_connections manager)"
  shows "websocket_endpoint rt None w client_id frames manager =
     (Returns, manager, fst (receive_loop rt client_id frames []))"
proof -
  obtain sent st where r: "receive_loop rt client_id frames [] = (sent, st)"
    by (cases "receive_loop rt client_id frames []")
  with assms(1) have ne: "st \<noteq> Receiving" by simp
  have rm: "remove1 w (active_connections manager @ [w]) = active_connections manager"
    using assms(2) by (simp add: remove1_append)
  show ?thesis
    using ne rm by (cases st) (simp_all add: websocket_endpoint_def connect_def disconnect_def r)
qed

lemma endpoint_waiting:
  assumes "snd (receive_loop rt client_id frames []) = Receiving"
  shows "websocket_endpoint rt None w client_id frames manager =
     (AwaitingFrame, manager\<lparr>active_connections := active_connections manager @ [w]\<rparr>,
      fst (receive_loop rt client_id frames []))"
proof -
  obtain sent st where r: "receive_loop rt client_id frames [] = (sent, st)"
    by (cases "receive_loop rt client_id frames []")
  with assms show ?thesis
    by (simp add: websocket_endpoint_def connect_def r)
qed

lemma endpoint_accept_fails:
  "websocket_endpoint rt (Some e) w client_id frames manager = (Raises e, manager, [])"
  by (simp add: websocket_endpoint_def connect_def)

lemma is_registered_iff: "is_registered t \<longleftrightarrow> is_looping t \<or> is_ended t"
  by (cases t) simp_all

lemma not_looping_and_ended: "\<not> (is_looping t \<and> is_ended t)"
  by (cases t) simp_all

lemma endpoint_step_registry:
  assumes d: "distinct (active_connections manager)"
    and s: "set (active_connections manager) = {v. is_looping (tasks v)}"
    and n: "\<forall>v e sent. tasks v \<noteq> Ended (Some e) sent"
    and st: "endpoint_step rt cid w ev (tasks w, manager) = (t, manager')"
  shows "distinct (active_connections manager') \<and>
         set (active_connections manager') = {v. is_looping ((tasks(w := t)) v)} \<and>
         (\<forall>v e sent. (tasks(w := t)) v \<noteq> Ended (Some e) sent)"
proof (cases "tasks w")
  case Start
  then have nw: "w \<notin> set (active_connections manager)" using s by auto
  show ?thesis
  proof (cases ev)
    case (Accept a)
    show ?thesis
    proof (cases a)
      case None
      with st Start Accept have "t = Looping []"
        and "manager' = manager\<lparr>active_connections := active_connections manager @ [w]\<rparr>"
        by (simp_all add: connect_def)
      then show ?thesis using d s n nw by auto
    next
      case (Some e)
      with st Start Accept have "t = Failed e" and "manager' = manager"
        by (simp_all add: connect_def)
      then show ?thesis using d s n Start by auto
    qed
  next
    case (Receive r)
    with st Start have "t = Start" and "manager' = manager" by simp_all
    then show ?thesis using d s n Start by auto
  qed
next
  case (Looping sent)
  then have iw: "w \<in> set (active_connections manager)" using s by auto
  show ?thesis
  proof (cases ev)
    case (Accept a)
    with st Looping have "t = Looping sent" and "manager' = manager" by simp_all
    then show ?thesis using d s n Looping by auto
  next
    case (Receive r)
    show ?thesis
    proof (cases "\<exists>data. r = Text data")
      case True
      then obtain data where "r = Text data" by blast
      with st Looping Receive have "t = Looping (handle_text rt cid data sent)"
        and "manager' = manager" by simp_all
      then show ?thesis using d s n Looping by auto
    next
      case False
      then have "endpoint_step rt cid w (Receive r) (Looping sent, manager) =
          (case disconnect w manager of
             Inl e \<Rightarrow> (Ended (Some e) sent, manager)
           | Inr manager2 \<Rightarrow> (Ended None sent, manager2))"
        by (cases r) simp_all
      with st Looping Receive iw have "t = Ended None sent"
        and "manager' = manager\<lparr>active_connections := remove1 w (active_connections manager)\<rparr>"
        by (simp_all add: disconnect_def)
      then show ?thesis using d s n by auto
    qed
  qed
next
  case (Ended x sent)
  with n have x: "x = None" by (cases x) auto
  from st Ended have "t = Ended x sent" and "manager' = manager" by simp_all
  then show ?thesis using d s n Ended x by auto
next
  case (Failed e)
  with st have "t = Failed e" and "manager' = manager" by simp_all
  then show ?thesis using d s n Failed by auto
qed

lemma system_run_registry:
  assumes "distinct (active_connections manager)"
    and "set (active_connections manager) = {v. is_looping (tasks v)}"
    and "\<forall>v e sent. tasks v \<noteq> Ended (Some e) sent"
    and "system_run rt client_id evs (tasks, manager) = (tasks', manager')"
  shows "distinct (active_connections manager') \<and>
         set (active_connections manager') = {v. is_looping (tasks' v)} \<and>
         (\<forall>v e sent. tasks' v \<noteq> Ended (Some e) sent)"
  using assms
proof (induction evs arbitrary: tasks manager)
  case Nil
  then show ?case by simp
next
  case (Cons p evs)
  obtain w ev where p: "p = (w, ev)" by (cases p)
  obtain t m where st: "endpoint_step rt (client_id w) w ev (tasks w, manager) = (t, m)"
    by (cases "endpoint_step rt (client_id w) w ev (tasks w, manager)")
  from endpoint_step_registry [OF Cons.prems(1) Cons.prems(2) Cons.prems(3) st]
  have d: "distinct (active_connections m)"
    and s: "set (active_connections m) = {v. is_looping ((tasks(w := t)) v)}"
    and n: "\<forall>v e sent. (tasks(w := t)) v \<noteq> Ended (Some e) sent"
    by blast+
  from Cons.prems(4) have r: "system_run rt client_id evs (tasks(w := t), m) = (tasks', manager')"
    by (simp add: p st)
  from Cons.IH [OF d s n r] show ?case .
qed

lemma system_run_untouched:
  "v \<notin> fst ` set evs \<Longrightarrow> fst (system_run rt client_id evs (tasks, manager)) v = tasks v"
proof (induction evs arbitrary: tasks manager)
  case Nil
  show ?case by simp
next
  case (Cons p evs)
  obtain w ev where p: "p = (w, ev)" by (cases p)
  obtain t m where st: "endpoint_step rt (client_id w) w ev (tasks w, manager) = (t, m)"
    by (cases "endpoint_step rt (client_id w) w ev (tasks w, manager)")
  from Cons.prems have ne: "v \<noteq> w" and nin: "v \<notin> fst ` set evs" by (auto simp: p)
  have "fst (system_run rt client_id (p # evs) (tasks, manager)) v =
      fst (system_run rt client_id evs (tasks(w := t), m)) v"
    by (simp add: p st)
  also have "\<dots> = (tasks(w := t)) v" using nin by (rule Cons.IH)
  also have "\<dots> = tasks v" using ne by simp
  finally show ?case .
qed

lemma registry_count:
  assumes d: "distinct (active_connections manager)"
    and s: "set (active_connections manager) = {v. is_looping (tasks v)}"
    and o: "\<forall>v. v \<notin> set ws \<longrightarrow> tasks v = Start"
    and dw: "distinct ws"
  shows "length (active_connections manager) =
           length (filter (\<lambda>v. is_registered (tasks v)) ws) -
           length (filter (\<lambda>v. is_ended (tasks v)) ws)"
proof -
  let ?L = "{v. is_looping (tasks v)}"
  let ?E = "{v. is_ended (tasks v)} \<inter> set ws"
  have sub: "?L \<subseteq> set ws"
  proof
    fix v assume "v \<in> ?L"
    then have "tasks v \<noteq> Start" by auto
    with o show "v \<in> set ws" by blast
  qed
  have fl: "finite ?L" using s by (metis List.finite_set)
  have fe: "finite ?E" by simp
  have dis: "?L \<inter> ?E = {}" using not_looping_and_ended by auto
  have r: "{v. is_registered (tasks v)} \<inter> set ws = ?L \<union> ?E"
    using sub by (auto simp: is_registered_iff)
  have "length (filter (\<lambda>v. is_registered (tasks v)) ws) = card (?L \<union> ?E)"
    using dw r by (simp add: distinct_length_filter)
  also have "\<dots> = card ?L + card ?E" using fl fe dis by (rule card_Un_disjoint)
  finally have n: "length (filter (\<lambda>v. is_registered (tasks v)) ws) = card ?L + card ?E" .
  have m: "length (filter (\<lambda>v. is_ended (tasks v)) ws) = card ?E"
    using dw by (simp add: distinct_length_filter)
  have "length (active_connections manager) = card ?L"
    using d s by (metis distinct_card)
  with n m show ?thesis by simp
qed

lemma endpoint_steps_ended:
  "fold (endpoint_step rt cid w) (map Receive frames) (Ended x sent, manager) =
     (Ended x sent, manager)"
  by (induction frames) simp_all

lemma endpoint_steps_loop:
  "fold (endpoint_step rt cid w) (map Receive frames) (Looping sent, manager) =
     (case receive_loop rt cid frames sent of
        (sent', Receiving) \<Rightarrow> (Looping sent', manager)
      | (sent', _) \<Rightarrow>
          (case disconnect w manager of
             Inl e \<Rightarrow> (Ended (Some e) sent', manager)
           | Inr manager2 \<Rightarrow> (Ended None sent', manager2)))"
proof (induction frames arbitrary: sent)
  case Nil
  show ?case by simp
next
  case (Cons f frames)
  show ?case
  proof (cases f)
    case (Text data)
    then show ?thesis using Cons.IH [of "handle_text rt cid data sent"] by simp
  next
    case WebSocketDisconnect
    then show ?thesis by (simp add: endpoint_steps_ended split: sum.splits)
  next
    case (RecvException e)
    then show ?thesis by (simp add: endpoint_steps_ended split: sum.splits)
  qed
qed

lemma endpoint_steps_failed:
  "fold (endpoint_step rt cid w) (map Receive frames) (Failed e, manager) = (Failed e, manager)"
  by (induction frames) simp_all

lemma endpoint_steps_agree:
  "task_outcome (fold (endpoint_step rt cid w) (Accept a # map Receive frames) (Start, manager)) =
     Some (websocket_endpoint rt a w cid frames manager)"
proof (cases a)
  case None
  obtain sent st where r: "receive_loop rt cid frames [] = (sent, st)"
    by (cases "receive_loop rt cid frames []")
  show ?thesis
    by (cases st)
      (simp_all add: None websocket_endpoint_def connect_def endpoint_steps_loop r disconnect_def)
next
  case (Some e)
  then show ?thesis
    by (simp add: websocket_endpoint_def connect_def endpoint_steps_failed)
qed

lemma endpoint_removes:
  assumes "snd (receive_loop rt client_id frames []) \<noteq> Receiving"
  shows "websocket_endpoint rt None w client_id frames manager =
     (Returns,
      manager\<lparr>active_connections := remove1 w (active_connections manager @ [w])\<rparr>,
      fst (receive_loop rt client_id frames []))"
proof -
  obtain sent st where r: "receive_loop rt client_id frames [] = (sent, st)"
    by (cases "receive_loop rt client_id frames []")
  with assms have ne: "st \<noteq> Receiving" by simp
  show ?thesis
    using ne by (cases st) (simp_all add: websocket_endpoint_def connect_def disconnect_def r)
qed

lemma system_run_from_empty:
  assumes r: "system_run rt client_id evs (\<lambda>v. Start, \<lparr>active_connections = []\<rparr>) = (tasks, manager')"
  shows "distinct (active_connections manager') \<and>
     (\<forall>v. v \<in> set (active_connections manager') \<longleftrightarrow> is_looping (tasks v)) \<and>
     (\<forall>v e sent. tasks v \<noteq> Ended (Some e) sent) \<and>
     (\<forall>v. v \<notin> fst ` set evs \<longrightarrow> tasks v = Start) \<and>
     length (active_connections manager') =
       length (filter (\<lambda>v. is_registered (tasks v)) (remdups (map fst evs))) -
       length (filter (\<lambda>v. is_ended (tasks v)) (remdups (map fst evs)))"
proof -
  have i: "distinct (active_connections manager') \<and>
         set (active_connections manager') = {v. is_looping (tasks v)} \<and>
         (\<forall>v e sent. tasks v \<noteq> Ended (Some e) sent)"
    by (rule system_run_registry [OF _ _ _ r]) simp_all
  have o: "\<forall>v. v \<notin> set (remdups (map fst evs)) \<longrightarrow> tasks v = Start"
  proof (intro allI impI)
    fix v assume "v \<notin> set (remdups (map fst evs))"
    then have "v \<notin> fst ` set evs" by simp
    from system_run_untouched [OF this, of rt client_id "\<lambda>v. Start" "\<lparr>active_connections = []\<rparr>"]
    show "tasks v = Start" by (simp add: r)
  qed
  have c: "length (active_connections manager') =
       length (filter (\<lambda>v. is_registered (tasks v)) (remdups (map fst evs))) -
       length (filter (\<lambda>v. is_ended (tasks v)) (remdups (map fst evs)))"
    using i o by (intro registry_count) simp_all
  from i o c show ?thesis by auto
qed

text \<open>
  C5. The registry holds exactly the live connections. \<open>connect\<close> appends the accepted
  connection. An endpoint whose accept succeeded and whose loop waits for a frame has
  appended its connection to the registry; one whose loop has ended, by a client
  disconnect or by any other exception of a receive, has removed it again in its
  \<open>finally\<close> clause and returns, so that with a fresh connection object the registry is
  what it was before. The endpoint is the composition of its steps between awaits. In
  every run of endpoint tasks on the one registry, started empty, in any order and with
  any outcomes of the awaits, the registry has no duplicates and holds exactly the
  connections of the tasks that are in their loop, no removal raises, and with N
  connections accepted and M of their tasks ended the registry has N - M entries. The
  same count holds of every sequence of connect and cleanup steps of such tasks.
\<close>

theorem registry_lifecycle:
  "connect None w manager =
     Inr (manager\<lparr>active_connections := active_connections manager @ [w]\<rparr>) \<and>
   (snd (receive_loop rt client_id frames []) = Receiving \<longrightarrow>
      websocket_endpoint rt None w client_id frames manager =
        (AwaitingFrame,
         manager\<lparr>active_connections := active_connections manager @ [w]\<rparr>,
         fst (receive_loop rt client_id frames []))) \<and>
   (snd (receive_loop rt client_id frames []) \<noteq> Receiving \<longrightarrow>
      websocket_endpoint rt None w client_id frames manager =
        (Returns,
         manager\<lparr>active_connections := remove1 w (active_connections manager @ [w])\<rparr>,
         fst (receive_loop rt client_id frames []))) \<and>
   (snd (receive_loop rt client_id frames []) \<noteq> Receiving \<and>
    w \<notin> set (active_connections manager) \<longrightarrow>
      websocket_endpoint rt None w client_id frames manager =
        (Returns, manager, fst (receive_loop rt client_id frames []))) \<and>
   task_outcome (fold (endpoint_step rt client_id w) (Accept a # map Receive frames)
       (Start, manager)) =
     Some (websocket_endpoint rt a w client_id frames manager) \<and>
   (system_run rt client_ids runs (\<lambda>v. Start, \<lparr>active_connections = []\<rparr>) = (tasks, manager') \<longrightarrow>
      distinct (active_connections manager') \<and>
      (\<forall>v. v \<in> set (active_connections manager') \<longleftrightarrow> is_looping (tasks v)) \<and>
      (\<forall>v e sent. tasks v \<noteq> Ended (Some e) sent) \<and>
      (\<forall>v. v \<notin> fst ` set runs \<longrightarrow> tasks v = Start) \<and>
      length (active_connections manager') =
        length (filter (\<lambda>v. is_registered (tasks v)) (remdups (map fst runs))) -
        length (filter (\<lambda>v. is_ended (tasks v)) (remdups (map fst runs)))) \<and>
   (schedule [] [] evs \<longrightarrow>
      (\<exists>manager'. run_lifecycle evs \<lparr>active_connections = []\<rparr> = Inr manager' \<and>
         set (active_connections manager') = set (accepted evs) - set (terminated evs) \<and>
         length (active_connections manager') =
           length (accepted evs) - length (terminated evs)))"
proof -
  have c1: "connect None w manager =
     Inr (manager\<lparr>active_connections := active_connections manager @ [w]\<rparr>)"
    by (rule connect_accepted)
  have c2: "snd (receive_loop rt client_id frames []) = Receiving \<longrightarrow>
      websocket_endpoint rt None w client_id frames manager =
        (AwaitingFrame,
         manager\<lparr>active_connections := active_connections manager @ [w]\<rparr>,
         fst (receive_loop rt client_id frames []))"
    using endpoint_waiting by blast
  have c3: "snd (receive_loop rt client_id frames []) \<noteq> Receiving \<longrightarrow>
      websocket_endpoint rt None w client_id frames manager =
        (Returns,
         manager\<lparr>active_connections := remove1 w (active_connections manager @ [w])\<rparr>,
         fst (receive_loop rt client_id frames []))"
    using endpoint_removes by blast
  have c4: "snd (receive_loop rt client_id frames []) \<noteq> Receiving \<and>
    w \<notin> set (active_connections manager) \<longrightarrow>
      websocket_endpoint rt None w client_id frames manager =
        (Returns, manager, fst (receive_loop rt client_id frames []))"
    using endpoint_terminated by blast
  have c5: "task_outcome (fold (endpoint_step rt client_id w) (Accept a # map Receive frames)
       (Start, manager)) =
     Some (websocket_endpoint rt a w client_id frames manager)"
    by (rule endpoint_steps_agree)
  have c6: "system_run rt client_ids runs (\<lambda>v. Start, \<lparr>active_connections = []\<rparr>) = (tasks, manager') \<longrightarrow>
      distinct (active_connections manager') \<and>
      (\<forall>v. v \<in> set (active_connections manager') \<longleftrightarrow> is_looping (tasks v)) \<and>
      (\<forall>v e sent. tasks v \<noteq> Ended (Some e) sent) \<and>
      (\<forall>v. v \<notin> fst ` set runs \<longrightarrow> tasks v = Start) \<and>
      length (active_connections manager') =
        length (filter (\<lambda>v. is_registered (tasks v)) (remdups (map fst runs))) -
        length (filter (\<lambda>v. is_ended (tasks v)) (remdups (map fst runs)))"
    by (rule impI) (rule system_run_from_empty)
  have c7: "schedule [] [] evs \<longrightarrow>
      (\<exists>manager'. run_lifecycle evs \<lparr>active_connections = []\<rparr> = Inr manager' \<and>
         set (active_connections manager') = set (accepted evs) - set (terminated evs) \<and>
         length (active_connections manager') =
           length (accepted evs) - length (terminated evs))"
    by (rule impI) (rule run_lifecycle_from_empty)
  show ?thesis by (rule conjI c1 c2 c3 c4 c5 c6 c7)+
qed


theorem registry_lifecycle_witness:
  "websocket_endpoint sample_runtime None 7 ''unknown'' [Text echo_frame]
       \<lparr>active_connections = [4]\<rparr> =
     (AwaitingFrame, \<lparr>active_connections = [4, 7]\<rparr>,
      [JObj [(''eventId'', JStr ''e1_obs''), (''timestamp'', JStr ''t1''),
             (''source'', JStr ''WebSocketGateway''), (''type'', JStr ''observation''),
             (''observationType'', JStr ''ECHO_OBSERVATION''),
             (''details'', JObj [(''x'', JInt 1)])]]) \<and>
   websocket_endpoint sample_runtime None 7 ''unknown'' [Text echo_frame, WebSocketDisconnect]
       \<lparr>active_connections = [4]\<rparr> =
     (Returns, \<lparr>active_connections = [4]\<rparr>,
      [JObj [(''eventId'', JStr ''e1_obs''), (''timestamp'', JStr ''t1''),
             (''source'', JStr ''WebSocketGateway''), (''type'', JStr ''observation''),
             (''observationType'', JStr ''ECHO_OBSERVATION''),
             (''details'', JObj [(''x'', JInt 1)])]]) \<and>
   snd (system_run sample_runtime (\<lambda>v. ''unknown'')
         [(1, Accept None), (2, Accept None), (1, Receive (Text echo_frame)),
          (3, Accept None), (2, Receive WebSocketDisconnect)]
         (\<lambda>v. Start, \<lparr>active_connections = []\<rparr>)) = \<lparr>active_connections = [1, 3]\<rparr> \<and>
   map (fst (system_run sample_runtime (\<lambda>v. ''unknown'')
         [(1, Accept None), (2, Accept None), (1, Receive (Text echo_frame)),
          (3, Accept None), (2, Receive WebSocketDisconnect)]
         (\<lambda>v. Start, \<lparr>active_connections = []\<rparr>))) [1, 2, 3] =
     [Looping [JObj [(''eventId'', JStr ''e1_obs''), (''timestamp'', JStr ''t1''),
             (''source'', JStr ''WebSocketGateway''), (''type'', JStr ''observation''),
             (''observationType'', JStr ''ECHO_OBSERVATION''),
             (''details'', JObj [(''x'', JInt 1)])]],
      Ended None [], Looping []] \<and>
   length (active_connections (snd (system_run sample_runtime (\<lambda>v. ''unknown'')
         [(1, Accept None), (2, Accept None), (1, Receive (Text echo_frame)),
          (3, Accept None), (2, Receive WebSocketDisconnect)]
         (\<lambda>v. Start, \<lparr>active_connections = []\<rparr>)))) = 3 - 1 \<and>
   run_lifecycle [Accepted 1, Accepted 2, Accepted 3, Terminated 2]
       \<lparr>active_connections = []\<rparr> = Inr \<lparr>active_connections = [1, 3]\<rparr>"
proof -
  let ?obs = "JObj [(''eventId'', JStr ''e1_obs''), (''timestamp'', JStr ''t1''),
             (''source'', JStr ''WebSocketGateway''), (''type'', JStr ''observation''),
             (''observationType'', JStr ''ECHO_OBSERVATION''),
             (''details'', JObj [(''x'', JInt 1)])]"
  let ?runs = "[(1, Accept None), (2, Accept None), (1, Receive (Text echo_frame)),
          (3, Accept None), (2, Receive WebSocketDisconnect)] :: (websocket \<times> await) list"
  let ?st = "system_run sample_runtime (\<lambda>v. ''unknown'') ?runs
         (\<lambda>v. Start, \<lparr>active_connections = []\<rparr>)"
  have h: "handle_text sample_runtime ''unknown'' echo_frame [] = [?obs]"
    by (simp add: sample_runtime_def sample_loads_def
      handle_text_def process_message_def is_action_payload_def add_event_def
      observation_payload_def dict_get_default_def send_personal_message_def)
  have r1: "receive_loop sample_runtime ''unknown'' [Text echo_frame] [] = ([?obs], Receiving)"
    by (simp add: h)
  have r2: "receive_loop sample_runtime ''unknown'' [Text echo_frame, WebSocketDisconnect] [] =
      ([?obs], Disconnected)"
    by (simp add: h)
  have s1: "snd ?st = \<lparr>active_connections = [1, 3]\<rparr>"
    by (simp add: connect_def disconnect_def h)
  have t1: "map (fst ?st) [1, 2, 3] = [Looping [?obs], Ended None [], Looping []]"
    by (simp add: connect_def disconnect_def h)
  have f1: "length (filter (\<lambda>v. is_registered (fst ?st v)) (remdups (map fst ?runs))) = 3"
    by (simp add: connect_def disconnect_def h)
  have f2: "length (filter (\<lambda>v. is_ended (fst ?st v)) (remdups (map fst ?runs))) = 1"
    by (simp add: connect_def disconnect_def h)
  have h2: "schedule [] [] [Accepted 1, Accepted 2, Accepted 3, Terminated 2]"
    by simp
  note t = registry_lifecycle [of 7 "\<lparr>active_connections = [4]\<rparr>" sample_runtime "''unknown''"
      "[Text echo_frame]" None "\<lambda>v. ''unknown''" ?runs "fst ?st" "snd ?st"
      "[Accepted 1, Accepted 2, Accepted 3, Terminated 2]"]
  note t' = registry_lifecycle [of 7 "\<lparr>active_connections = [4]\<rparr>" sample_runtime "''unknown''"
      "[Text echo_frame, WebSocketDisconnect]" None "\<lambda>v. ''unknown''" ?runs "fst ?st" "snd ?st"
      "[Accepted 1, Accepted 2, Accepted 3, Terminated 2]"]
  have e1: "websocket_endpoint sample_runtime None 7 ''unknown'' [Text echo_frame]
       \<lparr>active_connections = [4]\<rparr> =
     (AwaitingFrame, \<lparr>active_connections = [4, 7]\<rparr>, [?obs])"
    using t by (simp only: r1 fst_conv snd_conv simp_thms) simp
  have e2: "websocket_endpoint sample_runtime None 7 ''unknown''
       [Text echo_frame, WebSocketDisconnect] \<lparr>active_connections = [4]\<rparr> =
     (Returns, \<lparr>active_connections = [4]\<rparr>, [?obs])"
    using t' by (simp only: r2 fst_conv snd_conv simp_thms) simp
  have "?st = (fst ?st, snd ?st)" by (rule prod.collapse [symmetric])
  with t have "length (active_connections (snd ?st)) =
        length (filter (\<lambda>v. is_registered (fst ?st v)) (remdups (map fst ?runs))) -
        length (filter (\<lambda>v. is_ended (fst ?st v)) (remdups (map fst ?runs)))"
    by blast
  then have l: "length (active_connections (snd ?st)) = 3 - 1"
    by (simp only: f1 f2)
  have run: "run_lifecycle [Accepted 1, Accepted 2, Accepted 3, Terminated 2]
       \<lparr>active_connections = []\<rparr> = Inr \<lparr>active_connections = [1, 3]\<rparr>"
    by (simp add: connect_def disconnect_def)
  from e1 e2 s1 t1 l run show ?thesis by (intro conjI)
qed

text \<open>
  C10, as amended. \<open>disconnect\<close> removes from the list and raises \<open>ValueError\<close> for a
  connection that is not registered. Once \<open>connect\<close> has completed, the removal in the
  \<open>finally\<close> clause does not raise: an endpoint whose accept succeeded never ends in an
  exception, and no step of a run of endpoint tasks raises. If the accept fails, its
  exception leaves the endpoint before the \<open>try\<close> statement is entered: the cleanup is
  not executed, nothing is sent and the registry is unchanged.
\<close>

theorem cleanup_removal:
  "(w \<notin> set (active_connections manager) \<longrightarrow>
      disconnect w manager = Inl (ValueError (JStr ''list.remove(x): x not in list''))) \<and>
   (\<forall>e. fst (websocket_endpoint rt None w client_id frames manager) \<noteq> Raises e) \<and>
   (schedule [] [] evs \<longrightarrow>
      (\<forall>e. run_lifecycle evs \<lparr>active_connections = []\<rparr> \<noteq> Inl e)) \<and>
   websocket_endpoint rt (Some e) w client_id frames manager = (Raises e, manager, [])"
proof (intro conjI impI allI)
  assume "w \<notin> set (active_connections manager)"
  then show "disconnect w manager = Inl (ValueError (JStr ''list.remove(x): x not in list''))"
    by (rule disconnect_absent)
next
  fix e'
  obtain sent st where r: "receive_loop rt client_id frames [] = (sent, st)"
    by (cases "receive_loop rt client_id frames []")
  show "fst (websocket_endpoint rt None w client_id frames manager) \<noteq> Raises e'"
    by (cases st) (simp_all add: websocket_endpoint_def connect_def disconnect_def r)
next
  fix e'
  assume "schedule [] [] evs"
  then show "run_lifecycle evs \<lparr>active_connections = []\<rparr> \<noteq> Inl e'"
    using run_lifecycle_from_empty [of evs] by auto
next
  show "websocket_endpoint rt (Some e) w client_id frames manager = (Raises e, manager, [])"
    by (rule endpoint_accept_fails)
qed

theorem cleanup_removal_witness:
  "disconnect 5 \<lparr>active_connections = [1, 2]\<rparr> =
     Inl (ValueError (JStr ''list.remove(x): x not in list'')) \<and>
   run_lifecycle [Accepted 1, Terminated 1] \<lparr>active_connections = []\<rparr> =
     Inr \<lparr>active_connections = []\<rparr> \<and>
   websocket_endpoint sample_runtime (Some (OtherException ''accept failed'')) 7 ''unknown''
       [WebSocketDisconnect] \<lparr>active_connections = [4]\<rparr> =
     (Raises (OtherException ''accept failed''), \<lparr>active_connections = [4]\<rparr>, [])"
proof -
  have h1: "(5::websocket) \<notin> set (active_connections \<lparr>active_connections = [1, 2]\<rparr>)"
    by simp
  have h2: "schedule [] [] [Accepted 1, Terminated 1]"
    by simp
  have run: "run_lifecycle [Accepted 1, Terminated 1] \<lparr>active_connections = []\<rparr> =
     Inr \<lparr>active_connections = []\<rparr>"
    by (simp add: connect_def disconnect_def)
  from cleanup_removal [of 5 "\<lparr>active_connections = [1, 2]\<rparr>" sample_runtime "''unknown''"
      "[WebSocketDisconnect]" "[Accepted 1, Terminated 1]" "OtherException ''accept failed''"]
    cleanup_removal [of 7 "\<lparr>active_connections = [4]\<rparr>" sample_runtime "''unknown''"
      "[WebSocketDisconnect]" "[Accepted 1, Terminated 1]" "OtherException ''accept failed''"]
    h1 h2 run
  show ?thesis by simp
qed

text \<open>
  With a failing accept the endpoint raises the exception of the accept, not the
  \<open>ValueError\<close> of a removal.
\<close>

theorem accept_failure_counterexample:
  "websocket_endpoint sample_runtime (Some (OtherException ''accept failed'')) 0 ''unknown''
       [WebSocketDisconnect] \<lparr>active_connections = []\<rparr> =
     (Raises (OtherException ''accept failed''), \<lparr>active_connections = []\<rparr>, []) \<and>
   Raises (OtherException ''accept failed'') \<noteq>
     Raises (ValueError (JStr ''list.remove(x): x not in list''))"
  by (simp add: websocket_endpoint_def connect_def)

end
